theory Spec2Isabelle
  imports Complex_Main
begin

section \<open>Data model\<close>

text \<open>
  The service of \<^verbatim>\<open>main.py\<close> stores sensor readings in one table and pushes
  created readings to the websockets subscribed under the reading's user id.

  The handlers only copy the floating-point columns and the timestamp, so a finite float
  is represented by the real number it denotes and a timestamp by an integer instant.
  A websocket object is represented by a number, its identity.
\<close>

type_synonym float = real
type_synonym datetime = int
type_synonym handle = nat

text \<open>
  \<^verbatim>\<open>models/agent_data.py\<close> is not part of the sources. The shape of
  \<^verbatim>\<open>AgentData\<close> is the one \<^verbatim>\<open>main.py\<close> reads:
  \<^verbatim>\<open>item.agent_data.user_id\<close>, \<^verbatim>\<open>.accelerometer.x\<close>, \<^verbatim>\<open>.gps.latitude\<close>,
  \<^verbatim>\<open>.timestamp\<close>. The fields \<^verbatim>\<open>x\<close>, \<^verbatim>\<open>y\<close>, \<^verbatim>\<open>z\<close>,
  \<^verbatim>\<open>latitude\<close> and \<^verbatim>\<open>longitude\<close> carry a prefix here, so that the
  one-letter names stay free for variables.
\<close>

record Accelerometer =
  acc_x :: float
  acc_y :: float
  acc_z :: float

record Gps =
  gps_latitude :: float
  gps_longitude :: float

record AgentData =
  user_id :: int
  accelerometer :: Accelerometer
  gps :: Gps
  timestamp :: datetime

text \<open>\<^verbatim>\<open>class ProcessedAgentData(BaseModel)\<close> of \<^verbatim>\<open>models/processed_agent_data.py\<close>.\<close>

record ProcessedAgentData =
  road_state :: string
  agent_data :: AgentData

text \<open>
  A row of the table \<^verbatim>\<open>processed_agent_data\<close>; the column \<^verbatim>\<open>c\<close> of the
  source's \<^verbatim>\<open>processed_agent_data.c.id\<close> gives the prefix.
\<close>

record row =
  c_id :: int
  c_road_state :: string
  c_user_id :: int
  c_x :: float
  c_y :: float
  c_z :: float
  c_latitude :: float
  c_longitude :: float
  c_timestamp :: datetime

text \<open>
  Modelled from the spec: \<^verbatim>\<open>models/processed_agent_data_in_db.py\<close> is missing; the
  spec describes \<^verbatim>\<open>ProcessedAgentDataInDB\<close> as the flattened projection of
  \<^verbatim>\<open>ProcessedAgentData\<close> plus the assigned \<^verbatim>\<open>id\<close>.
\<close>

record ProcessedAgentDataInDB =
  db_id :: int
  db_road_state :: string
  db_user_id :: int
  db_x :: float
  db_y :: float
  db_z :: float
  db_latitude :: float
  db_longitude :: float
  db_timestamp :: datetime

text \<open>\<^verbatim>\<open>ProcessedAgentDataInDB(**result._asdict())\<close>: every column goes to the field of its name.\<close>

definition in_db_of_row :: "row \<Rightarrow> ProcessedAgentDataInDB" where
  "in_db_of_row r =
     \<lparr>db_id = c_id r, db_road_state = c_road_state r, db_user_id = c_user_id r,
      db_x = c_x r, db_y = c_y r, db_z = c_z r,
      db_latitude = c_latitude r, db_longitude = c_longitude r,
      db_timestamp = c_timestamp r\<rparr>"

text \<open>The \<^verbatim>\<open>.values(...)\<close> clause shared by the insert and the update statement.\<close>

definition row_of :: "int \<Rightarrow> ProcessedAgentData \<Rightarrow> row" where
  "row_of i item =
     \<lparr>c_id = i,
      c_road_state = road_state item,
      c_user_id = user_id (agent_data item),
      c_x = acc_x (accelerometer (agent_data item)),
      c_y = acc_y (accelerometer (agent_data item)),
      c_z = acc_z (accelerometer (agent_data item)),
      c_latitude = gps_latitude (gps (agent_data item)),
      c_longitude = gps_longitude (gps (agent_data item)),
      c_timestamp = timestamp (agent_data item)\<rparr>"

text \<open>The object \<^verbatim>\<open>db.execute\<close> returns for an insert, update or delete statement.\<close>

record CursorResult =
  inserted_primary_key :: "int option"
  rowcount :: nat

section \<open>Python values and \<^verbatim>\<open>json.dumps\<close>\<close>

text \<open>
  The values that reach \<^verbatim>\<open>json.dumps\<close>. The encoder of the standard library
  serialises \<^verbatim>\<open>None\<close>, booleans, numbers, strings, lists and dictionaries with
  string keys, and raises \<^verbatim>\<open>TypeError\<close> on an object of any other class, such as
  a \<^verbatim>\<open>CursorResult\<close>, wherever it occurs in the value.
\<close>

datatype pyobj =
    PyNone
  | PyBool bool
  | PyInt int
  | PyStr string
  | PyList "pyobj list"
  | PyDict "(string \<times> pyobj) list"
  | PyCursorResult CursorResult

datatype error =
    ValidationError "string list"
  | HTTPException nat string
  | TypeError
  | IntegrityError
  | WebSocketDisconnect

fun serializable :: "pyobj \<Rightarrow> bool" where
  "serializable (PyList vs) = (\<forall>v \<in> set vs. serializable v)"
| "serializable (PyDict kvs) = (\<forall>v \<in> set (map snd kvs). serializable v)"
| "serializable (PyCursorResult r) = False"
| "serializable v = True"

text \<open>
  The text \<^verbatim>\<open>json.dumps\<close> returns is represented by the value it encodes.
\<close>

datatype json_text = Json pyobj

definition json_dumps :: "pyobj \<Rightarrow> error + json_text" where
  "json_dumps v = (if serializable v then Inr (Json v) else Inl TypeError)"

section \<open>The state of the process and of the store\<close>

text \<open>
  What happened, in order: the statements executed, the commits (with the ids of the rows
  durable after the commit), the rollbacks, the calls of
  \<^verbatim>\<open>send_data_to_subscribers\<close> and the frames sent.
\<close>

datatype event =
    EvInsert int
  | EvUpdate int
  | EvDelete int
  | EvCommit "int list"
  | EvRollback
  | EvBroadcast int
  | EvSend handle json_text

text \<open>
  \<^item> \<open>committed\<close>: the durable rows of the table, in insertion order;
  \<^item> \<open>session\<close>: the rows as the open session sees them, with its uncommitted changes;
  \<^item> \<open>seq\<close>: the next value of the sequence behind the primary key \<^verbatim>\<open>id\<close>;
  \<^item> \<open>subscriptions\<close>: the global dictionary; a set of websockets is the list of its
    members in the order a \<^verbatim>\<open>for\<close> loop visits them;
  \<^item> \<open>closed\<close>: the websockets on which \<^verbatim>\<open>send_json\<close> raises;
  \<^item> \<open>log\<close>: the events so far.
\<close>

record world =
  committed :: "row list"
  session :: "row list"
  seq :: int
  subscriptions :: "int \<rightharpoonup> handle list"
  closed :: "handle set"
  log :: "event list"

datatype response =
    RNone
  | RRecord ProcessedAgentDataInDB
  | RList "ProcessedAgentDataInDB list"

definition emit :: "event \<Rightarrow> world \<Rightarrow> world" where
  "emit e w = w\<lparr>log := log w @ [e]\<rparr>"

text \<open>\<^verbatim>\<open>with SessionLocal() as db\<close>: a new session sees the durable rows.\<close>

definition SessionLocal :: "world \<Rightarrow> world" where
  "SessionLocal w = w\<lparr>session := committed w\<rparr>"

definition commit :: "world \<Rightarrow> world" where
  "commit w = emit (EvCommit (map c_id (session w))) (w\<lparr>committed := session w\<rparr>)"

definition rollback :: "world \<Rightarrow> world" where
  "rollback w = emit EvRollback (w\<lparr>session := committed w\<rparr>)"

text \<open>
  \<^verbatim>\<open>db.execute(processed_agent_data.insert().values(...))\<close>. The store draws the id
  from the sequence; the primary key refuses an id that a row already has, and the value
  drawn from the sequence is used up all the same.
\<close>

definition execute_insert :: "ProcessedAgentData \<Rightarrow> world \<Rightarrow> (error + CursorResult) \<times> world" where
  "execute_insert item w =
     (let i = seq w; w1 = w\<lparr>seq := i + 1\<rparr>
      in if i \<in> set (map c_id (session w)) then (Inl IntegrityError, w1)
         else (Inr \<lparr>inserted_primary_key = Some i, rowcount = 1\<rparr>,
               emit (EvInsert i) (w1\<lparr>session := session w @ [row_of i item]\<rparr>)))"

text \<open>\<^verbatim>\<open>select(processed_agent_data).where(c.id == i)\<close> followed by \<^verbatim>\<open>fetchone()\<close>.\<close>

definition select_one :: "int \<Rightarrow> world \<Rightarrow> row option" where
  "select_one i w = find (\<lambda>r. c_id r = i) (session w)"

definition execute_update :: "int \<Rightarrow> ProcessedAgentData \<Rightarrow> world \<Rightarrow> CursorResult \<times> world" where
  "execute_update i item w =
     (\<lparr>inserted_primary_key = None, rowcount = length (filter (\<lambda>r. c_id r = i) (session w))\<rparr>,
      emit (EvUpdate i)
        (w\<lparr>session := map (\<lambda>r. if c_id r = i then row_of i item else r) (session w)\<rparr>))"

definition execute_delete :: "int \<Rightarrow> world \<Rightarrow> CursorResult \<times> world" where
  "execute_delete i w =
     (\<lparr>inserted_primary_key = None, rowcount = length (filter (\<lambda>r. c_id r = i) (session w))\<rparr>,
      emit (EvDelete i) (w\<lparr>session := filter (\<lambda>r. c_id r \<noteq> i) (session w)\<rparr>))"

section \<open>Fan-out\<close>

text \<open>\<^verbatim>\<open>websocket.send_json(s)\<close>: raises on a closed websocket, sends a frame otherwise.\<close>

definition send_json :: "handle \<Rightarrow> json_text \<Rightarrow> world \<Rightarrow> (error + unit) \<times> world" where
  "send_json h s w =
     (if h \<in> closed w then (Inl WebSocketDisconnect, w) else (Inr (), emit (EvSend h s) w))"

text \<open>
  The loop \<^verbatim>\<open>for websocket in subscriptions[user_id]: await
  websocket.send_json(json.dumps(data))\<close>. The argument is evaluated in every round, before
  the call; an exception of either leaves the loop.
\<close>

fun send_loop :: "handle list \<Rightarrow> pyobj \<Rightarrow> world \<Rightarrow> (error + unit) \<times> world" where
  "send_loop [] data w = (Inr (), w)"
| "send_loop (h # hs) data w =
     (case json_dumps data of
        Inl e \<Rightarrow> (Inl e, w)
      | Inr s \<Rightarrow>
          (case send_json h s w of
             (Inl e, w') \<Rightarrow> (Inl e, w')
           | (Inr u, w') \<Rightarrow> send_loop hs data w'))"

definition send_data_to_subscribers :: "int \<Rightarrow> pyobj \<Rightarrow> world \<Rightarrow> (error + unit) \<times> world" where
  "send_data_to_subscribers uid data w =
     (let w0 = emit (EvBroadcast uid) w
      in case subscriptions w0 uid of
           None \<Rightarrow> (Inr (), w0)
         | Some hs \<Rightarrow> send_loop hs data w0)"

section \<open>The handlers\<close>

text \<open>
  One round of the loop of \<^verbatim>\<open>create_processed_agent_data\<close>: insert, commit, send;
  on any exception \<^verbatim>\<open>db.rollback()\<close> and \<^verbatim>\<open>raise e\<close>.
\<close>

definition create_item :: "ProcessedAgentData \<Rightarrow> world \<Rightarrow> (error + unit) \<times> world" where
  "create_item item w =
     (case execute_insert item w of
        (Inl e, w1) \<Rightarrow> (Inl e, rollback w1)
      | (Inr result, w1) \<Rightarrow>
          (case send_data_to_subscribers (user_id (agent_data item)) (PyCursorResult result)
                  (commit w1) of
             (Inl e, w2) \<Rightarrow> (Inl e, rollback w2)
           | (Inr u, w2) \<Rightarrow> (Inr (), w2)))"

fun create_loop :: "ProcessedAgentData list \<Rightarrow> world \<Rightarrow> (error + unit) \<times> world" where
  "create_loop [] w = (Inr (), w)"
| "create_loop (item # items) w =
     (case create_item item w of
        (Inl e, w') \<Rightarrow> (Inl e, w')
      | (Inr u, w') \<Rightarrow> create_loop items w')"

text \<open>The handler has no \<^verbatim>\<open>return\<close>: a call that does not raise returns \<^verbatim>\<open>None\<close>.\<close>

definition create_processed_agent_data ::
  "ProcessedAgentData list \<Rightarrow> world \<Rightarrow> (error + response) \<times> world" where
  "create_processed_agent_data data w =
     (case create_loop data (SessionLocal w) of
        (Inl e, w') \<Rightarrow> (Inl e, w')
      | (Inr u, w') \<Rightarrow> (Inr RNone, w'))"

definition not_found :: error where
  "not_found = HTTPException 404 ''ProcessedAgentData not found''"


definition list_processed_agent_data :: "world \<Rightarrow> (error + response) \<times> world" where
  "list_processed_agent_data w =
     (let w0 = SessionLocal w in (Inr (RList (map in_db_of_row (session w0))), w0))"

definition update_processed_agent_data ::
  "int \<Rightarrow> ProcessedAgentData \<Rightarrow> world \<Rightarrow> (error + response) \<times> world" where
  "update_processed_agent_data i data w =
     (case execute_update i data (SessionLocal w) of
        (result, w1) \<Rightarrow>
          (let w2 = commit w1
           in if rowcount result = 0 then (Inl not_found, w2)
              else (case select_one i w2 of
                      None \<Rightarrow>
                        (Inl (HTTPException 404 ''Failed to fetch updated ProcessedAgentData''),
                         w2)
                    | Some updated_result \<Rightarrow> (Inr (RRecord (in_db_of_row updated_result)), w2))))"

definition delete_processed_agent_data :: "int \<Rightarrow> world \<Rightarrow> (error + response) \<times> world" where
  "delete_processed_agent_data i w =
     (let w0 = SessionLocal w
      in case select_one i w0 of
           None \<Rightarrow> (Inl not_found, w0)
         | Some result \<Rightarrow>
             (case execute_delete i w0 of
                (r, w1) \<Rightarrow> (Inr (RRecord (in_db_of_row result)), commit w1)))"

section \<open>Validation of the request body\<close>

text \<open>
  The body of a request as \<^verbatim>\<open>json.loads\<close> parses it; an object is the list of
  the items of its dictionary.
\<close>

datatype json =
    JNull
  | JBool bool
  | JNum real
  | JStr string
  | JArr "json list"
  | JObj "(string \<times> json) list"

text \<open>
  The validation pydantic derives from \<^verbatim>\<open>class ProcessedAgentData\<close>: the payload
  is an object, \<^verbatim>\<open>road_state: str\<close> is present and a string, and
  \<^verbatim>\<open>agent_data: AgentData\<close> is present and passes the validation of
  \<^verbatim>\<open>AgentData\<close>. The class declares no validator of its own and no constraint on a
  field. The validation of \<^verbatim>\<open>AgentData\<close>, whose module is not part of the sources,
  is the parameter \<open>va\<close>. The error carries the location of the first field at fault.
\<close>

fun validate_ProcessedAgentData ::
  "(json \<Rightarrow> error + AgentData) \<Rightarrow> json \<Rightarrow> error + ProcessedAgentData" where
  "validate_ProcessedAgentData va (JObj kvs) =
     (case map_of kvs ''road_state'' of
        None \<Rightarrow> Inl (ValidationError [''road_state''])
      | Some (JStr s) \<Rightarrow>
          (case map_of kvs ''agent_data'' of
             None \<Rightarrow> Inl (ValidationError [''agent_data''])
           | Some a \<Rightarrow>
               (case va a of
                  Inl e \<Rightarrow> Inl e
                | Inr ad \<Rightarrow> Inr \<lparr>road_state = s, agent_data = ad\<rparr>))
      | Some v \<Rightarrow> Inl (ValidationError [''road_state'']))"
| "validate_ProcessedAgentData va v = Inl (ValidationError [])"

fun validate_items ::
  "(json \<Rightarrow> error + AgentData) \<Rightarrow> json list \<Rightarrow> error + ProcessedAgentData list" where
  "validate_items va [] = Inr []"
| "validate_items va (j # js) =
     (case validate_ProcessedAgentData va j of
        Inl e \<Rightarrow> Inl e
      | Inr d \<Rightarrow>
          (case validate_items va js of
             Inl e \<Rightarrow> Inl e
           | Inr ds \<Rightarrow> Inr (d # ds)))"

text \<open>The parameter \<^verbatim>\<open>data: List[ProcessedAgentData]\<close>.\<close>

definition validate_body ::
  "(json \<Rightarrow> error + AgentData) \<Rightarrow> json \<Rightarrow> error + ProcessedAgentData list" where
  "validate_body va body =
     (case body of JArr js \<Rightarrow> validate_items va js | _ \<Rightarrow> Inl (ValidationError []))"

text \<open>
  \<^verbatim>\<open>@app.post("/processed_agent_data/")\<close>: the framework validates the body against
  the annotation of the parameter and calls the handler only with a valid value.
\<close>

definition post_processed_agent_data ::
  "(json \<Rightarrow> error + AgentData) \<Rightarrow> json \<Rightarrow> world \<Rightarrow> (error + response) \<times> world" where
  "post_processed_agent_data va body w =
     (case validate_body va body of
        Inl e \<Rightarrow> (Inl e, w)
      | Inr data \<Rightarrow> create_processed_agent_data data w)"

section \<open>Examples of values\<close>

definition agent :: "int \<Rightarrow> AgentData" where
  "agent uid =
     \<lparr>user_id = uid,
      accelerometer = \<lparr>acc_x = 1, acc_y = 2, acc_z = 98\<rparr>,
      gps = \<lparr>gps_latitude = 50, gps_longitude = 30\<rparr>,
      timestamp = 1704067200\<rparr>"

definition reading :: "int \<Rightarrow> ProcessedAgentData" where
  "reading uid = \<lparr>road_state = ''normal'', agent_data = agent uid\<rparr>"

text \<open>A process that has just started, with an empty table, and the given subscribers.\<close>

definition start :: "(int \<rightharpoonup> handle list) \<Rightarrow> handle set \<Rightarrow> world" where
  "start subs cl =
     \<lparr>committed = [], session = [], seq = 1, subscriptions = subs, closed = cl, log = []\<rparr>"

text \<open>Two websockets under user 7 and one under user 8.\<close>

definition subs78 :: "int \<rightharpoonup> handle list" where
  "subs78 = [7 \<mapsto> [1, 2], 8 \<mapsto> [3]]"

section \<open>Auxiliary notions\<close>

text \<open>
  The world after the handler of create has inserted a reading, committed it and entered
  \<^verbatim>\<open>send_data_to_subscribers\<close>.
\<close>

definition stored :: "ProcessedAgentData \<Rightarrow> world \<Rightarrow> world" where
  "stored item w =
     w\<lparr>seq := seq w + 1,
       session := session w @ [row_of (seq w) item],
       committed := session w @ [row_of (seq w) item],
       log := log w @ [EvInsert (seq w), EvCommit (map c_id (session w) @ [seq w]),
                       EvBroadcast (user_id (agent_data item))]\<rparr>"

text \<open>
  The payloads the validation above refuses, said as a property of the payload: it is not
  an object, or \<^verbatim>\<open>road_state\<close> is missing or not a string, or
  \<^verbatim>\<open>agent_data\<close> is missing or refused by the validation of \<^verbatim>\<open>AgentData\<close>.
\<close>

definition violates :: "(json \<Rightarrow> error + AgentData) \<Rightarrow> json \<Rightarrow> bool" where
  "violates va j =
     (case j of
        JObj kvs \<Rightarrow>
          (case map_of kvs ''road_state'' of
             Some (JStr s) \<Rightarrow>
               (case map_of kvs ''agent_data'' of None \<Rightarrow> True | Some a \<Rightarrow> isl (va a))
           | _ \<Rightarrow> True)
      | _ \<Rightarrow> True)"

text \<open>
  Modelled from the spec: \<^verbatim>\<open>models/agent_data.py\<close> is missing. For the examples,
  one payload that the spec's \<^verbatim>\<open>AgentData\<close> admits (an integer user id, numbers for
  the five readings, a date-time) and an instance of the validation that accepts this
  payload and no other.
\<close>

definition agent_json :: json where
  "agent_json =
     JObj [(''user_id'', JNum 1),
           (''accelerometer'', JObj [(''x'', JNum 1), (''y'', JNum 2), (''z'', JNum 98)]),
           (''gps'', JObj [(''latitude'', JNum 50), (''longitude'', JNum 30)]),
           (''timestamp'', JStr ''2024-01-01T00:00:00Z'')]"

definition validate_AgentData_example :: "json \<Rightarrow> error + AgentData" where
  "validate_AgentData_example j =
     (if j = agent_json then Inr (agent 1) else Inl (ValidationError [''agent_data'']))"

definition payload :: "json \<Rightarrow> json" where
  "payload rs = JObj [(''road_state'', rs), (''agent_data'', agent_json)]"

text \<open>
  \<open>commit_precedes i seen evs\<close>: in the events \<open>evs\<close>, every call of
  \<^verbatim>\<open>send_data_to_subscribers\<close> and every frame sent comes after a commit that left
  the row with id \<open>i\<close> durable; \<open>seen\<close> says whether such a commit came before
  \<open>evs\<close>.
\<close>

fun commit_precedes :: "int \<Rightarrow> bool \<Rightarrow> event list \<Rightarrow> bool" where
  "commit_precedes i seen [] = True"
| "commit_precedes i seen (EvCommit ids # evs) = commit_precedes i (seen \<or> i \<in> set ids) evs"
| "commit_precedes i seen (EvBroadcast uid # evs) = (seen \<and> commit_precedes i seen evs)"
| "commit_precedes i seen (EvSend h s # evs) = (seen \<and> commit_precedes i seen evs)"
| "commit_precedes i seen (e # evs) = commit_precedes i seen evs"

text \<open>
  The rows of a list of readings inserted one after the other, the first under id \<open>i\<close>.
\<close>

fun rows_from :: "int \<Rightarrow> ProcessedAgentData list \<Rightarrow> row list" where
  "rows_from i [] = []"
| "rows_from i (item # items) = row_of i item # rows_from (i + 1) items"

text \<open>
  The events of a list of readings created one after the other without an exception, the
  first under id \<open>i\<close> in a table holding the ids \<open>ids\<close>: for each reading the insert, the
  commit and the broadcast.
\<close>

fun events_from :: "int list \<Rightarrow> int \<Rightarrow> ProcessedAgentData list \<Rightarrow> event list" where
  "events_from ids i [] = []"
| "events_from ids i (item # items) =
     [EvInsert i, EvCommit (ids @ [i]), EvBroadcast (user_id (agent_data item))]
     @ events_from (ids @ [i]) (i + 1) items"

text \<open>
  A table of three rows, made by one create.
\<close>

definition three_rows :: world where
  "three_rows = snd (create_processed_agent_data [reading 41, reading 42, reading 43]
                       (start subs78 {}))"

text \<open>
  The table as the primary key and its sequence keep it: no two rows share an id, and
  every id is below the next value of the sequence.
\<close>

definition consistent :: "world \<Rightarrow> bool" where
  "consistent w \<longleftrightarrow>
     distinct (map c_id (committed w)) \<and> list_all (\<lambda>r. c_id r < seq w) (committed w)"

section \<open>Lemmas about the fan-out and one round of create\<close>

lemmas world_ops = emit_def SessionLocal_def commit_def rollback_def

lemmas example_defs = start_def subs78_def reading_def agent_def

lemma send_loop_not_serializable:
  "\<not> serializable data \<Longrightarrow> send_loop (h # hs) data w = (Inl TypeError, w)"
  by (simp add: json_dumps_def)

lemma c_id_row_of [simp]: "c_id (row_of i item) = i"
  by (simp add: row_of_def)

lemma send_loop_fields:
  "committed (snd (send_loop hs data w)) = committed w \<and>
   session (snd (send_loop hs data w)) = session w \<and>
   seq (snd (send_loop hs data w)) = seq w \<and>
   subscriptions (snd (send_loop hs data w)) = subscriptions w \<and>
   closed (snd (send_loop hs data w)) = closed w"
  by (induction hs arbitrary: w)
    (auto simp add: send_json_def emit_def split: sum.splits prod.splits)

lemma send_data_fields:
  "committed (snd (send_data_to_subscribers uid data w)) = committed w \<and>
   session (snd (send_data_to_subscribers uid data w)) = session w \<and>
   seq (snd (send_data_to_subscribers uid data w)) = seq w \<and>
   subscriptions (snd (send_data_to_subscribers uid data w)) = subscriptions w \<and>
   closed (snd (send_data_to_subscribers uid data w)) = closed w"
proof (cases "subscriptions w uid")
  case None
  then show ?thesis by (simp add: send_data_to_subscribers_def emit_def)
next
  case (Some hs)
  with send_loop_fields [of hs data "emit (EvBroadcast uid) w"] show ?thesis
    by (simp add: send_data_to_subscribers_def emit_def)
qed

lemma send_loop_aborts:
  assumes "json_dumps data = Inr s" and "h \<in> closed w" and "set pre \<inter> closed w = {}"
  shows "send_loop (pre @ h # post) data w =
           (Inl WebSocketDisconnect, w\<lparr>log := log w @ map (\<lambda>k. EvSend k s) pre\<rparr>)"
  using assms
proof (induction pre arbitrary: w)
  case Nil
  then show ?case by (simp add: send_json_def)
next
  case (Cons k pre)
  from Cons.prems have k: "k \<notin> closed w" by auto
  have "send_loop (pre @ h # post) data (emit (EvSend k s) w) =
          (Inl WebSocketDisconnect,
           (emit (EvSend k s) w)\<lparr>log := log (emit (EvSend k s) w) @ map (\<lambda>k. EvSend k s) pre\<rparr>)"
    using Cons.prems by (intro Cons.IH) (auto simp add: emit_def)
  with k Cons.prems(1) show ?case by (simp add: send_json_def emit_def)
qed

lemma create_item_duplicate:
  "seq w \<in> set (map c_id (session w)) \<Longrightarrow>
   create_item item w = (Inl IntegrityError, rollback (w\<lparr>seq := seq w + 1\<rparr>))"
  by (simp add: create_item_def execute_insert_def Let_def)

lemma create_item_quiet:
  assumes "seq w \<notin> set (map c_id (session w))"
    and "subscriptions w (user_id (agent_data item)) = None
       \<or> subscriptions w (user_id (agent_data item)) = Some []"
  shows "create_item item w = (Inr (), stored item w)"
  using assms
  by (auto simp add: create_item_def execute_insert_def Let_def send_data_to_subscribers_def
      world_ops stored_def)

lemma create_item_subscribed:
  assumes "seq w \<notin> set (map c_id (session w))"
    and "subscriptions w (user_id (agent_data item)) = Some (h # hs)"
  shows "create_item item w = (Inl TypeError, rollback (stored item w))"
  using assms
  by (auto simp add: create_item_def execute_insert_def Let_def send_data_to_subscribers_def
      world_ops stored_def json_dumps_def)

lemma create_item_cases:
  "(seq w \<in> set (map c_id (session w)) \<and>
      create_item item w = (Inl IntegrityError, rollback (w\<lparr>seq := seq w + 1\<rparr>))) \<or>
   (seq w \<notin> set (map c_id (session w)) \<and>
      create_item item w = (Inr (), stored item w)) \<or>
   (seq w \<notin> set (map c_id (session w)) \<and>
      create_item item w = (Inl TypeError, rollback (stored item w)))"
proof (cases "seq w \<in> set (map c_id (session w))")
  case True
  then show ?thesis by (simp add: create_item_duplicate)
next
  case False
  show ?thesis
  proof (cases "subscriptions w (user_id (agent_data item))")
    case None
    with False show ?thesis by (simp add: create_item_quiet)
  next
    case (Some hs)
    with False show ?thesis
      by (cases hs) (simp_all add: create_item_quiet create_item_subscribed)
  qed
qed

lemma create_single:
  "create_processed_agent_data [item] w =
     (case create_item item (SessionLocal w) of
        (Inl e, w') \<Rightarrow> (Inl e, w')
      | (Inr u, w') \<Rightarrow> (Inr RNone, w'))"
  by (simp add: create_processed_agent_data_def split: prod.splits sum.splits)


section \<open>Lemmas about the batch\<close>

lemma create_loop_append:
  "create_loop (xs @ ys) w =
     (case create_loop xs w of
        (Inl e, w') \<Rightarrow> (Inl e, w')
      | (Inr u, w') \<Rightarrow> create_loop ys w')"
  by (induction xs arbitrary: w) (auto split: prod.splits sum.splits)

lemma create_loop_success:
  assumes "create_loop items w = (Inr u, w')" and "session w = committed w"
  shows "committed w' = committed w @ rows_from (seq w) items \<and> session w' = committed w' \<and>
         log w' = log w @ events_from (map c_id (committed w)) (seq w) items"
  using assms
proof (induction items arbitrary: w)
  case Nil
  then show ?case by simp
next
  case (Cons item items)
  from create_item_cases [of w item] Cons.prems(1)
  have step: "create_item item w = (Inr (), stored item w)"
    by (auto split: prod.splits sum.splits)
  with Cons.prems(1) have rest: "create_loop items (stored item w) = (Inr u, w')"
    by simp
  have "session (stored item w) = committed (stored item w)"
    by (simp add: stored_def)
  from Cons.IH [OF rest this] Cons.prems(2) show ?case
    by (simp add: stored_def)
qed

lemma create_item_keeps:
  assumes "session w = committed w"
  shows "take (length (committed w)) (committed (snd (create_item item w))) = committed w"
  using create_item_cases [of w item] assms
  by (auto simp add: stored_def world_ops)

section \<open>Lemmas about validation\<close>

lemma validate_violates: "isl (validate_ProcessedAgentData va j) = violates va j"
  by (cases j) (auto simp add: violates_def split: option.splits json.splits sum.splits)

lemma validate_items_isl:
  "isl (validate_items va js) = (\<exists>j \<in> set js. violates va j)"
proof (induction js)
  case Nil
  then show ?case by simp
next
  case (Cons j js)
  have "isl (validate_items va (j # js)) =
          (isl (validate_ProcessedAgentData va j) \<or> isl (validate_items va js))"
    by (simp split: sum.splits)
  with Cons.IH show ?case by (simp add: validate_violates)
qed

section \<open>Lemmas about selecting, updating and deleting by id\<close>







lemma delete_committed:
  "committed (snd (delete_processed_agent_data i w)) =
     filter (\<lambda>r. c_id r \<noteq> i) (committed w)"
proof (cases "select_one i (SessionLocal w)")
  case None
  then have "\<forall>r \<in> set (committed w). c_id r \<noteq> i"
    by (simp add: select_one_def SessionLocal_def find_None_iff)
  then have "filter (\<lambda>r. c_id r \<noteq> i) (committed w) = committed w"
    by simp
  with None show ?thesis
    by (simp add: delete_processed_agent_data_def Let_def SessionLocal_def)
next
  case (Some r)
  then show ?thesis
    by (simp add: delete_processed_agent_data_def Let_def execute_delete_def world_ops)
qed


lemma update_committed:
  "committed (snd (update_processed_agent_data i item w)) =
     map (\<lambda>r. if c_id r = i then row_of i item else r) (committed w)"
  by (simp add: update_processed_agent_data_def execute_update_def Let_def world_ops
      split: option.splits)


section \<open>The primary key is kept\<close>

text \<open>
  Every world that the handlers reach from a start satisfies \<open>consistent\<close>, and in
  such a world the next value of the sequence is an id that no row has.
\<close>

lemma consistent_fresh: "consistent w \<Longrightarrow> seq w \<notin> set (map c_id (committed w))"
  by (auto simp add: consistent_def list_all_iff)

lemma consistent_start: "consistent (start subs cl)"
  by (simp add: consistent_def start_def)

lemma consistent_create_item:
  assumes "consistent w" and "session w = committed w"
  shows "consistent (snd (create_item item w)) \<and>
         session (snd (create_item item w)) = committed (snd (create_item item w))"
proof -
  from assms(1) have below: "\<forall>r \<in> set (committed w). c_id r < seq w + 1"
    by (auto simp add: consistent_def list_all_iff)
  from assms(1) have dist: "distinct (map c_id (committed w))"
    by (simp add: consistent_def)
  from create_item_cases [of w item] assms(2) below dist show ?thesis
    by (auto simp add: consistent_def list_all_iff stored_def world_ops)
qed

lemma consistent_create_loop:
  assumes "consistent w" and "session w = committed w"
  shows "consistent (snd (create_loop items w))"
  using assms
proof (induction items arbitrary: w)
  case Nil
  then show ?case by simp
next
  case (Cons item items)
  from consistent_create_item [OF Cons.prems, of item]
  have "consistent (snd (create_item item w))"
    and "session (snd (create_item item w)) = committed (snd (create_item item w))"
    by simp_all
  from this(1) Cons.IH [OF this] show ?case
    by (cases "create_item item w") (auto split: sum.splits)
qed

lemma consistent_create:
  assumes "consistent w"
  shows "consistent (snd (create_processed_agent_data items w))"
proof -
  from assms have "consistent (SessionLocal w)"
    by (simp add: consistent_def SessionLocal_def)
  moreover have "session (SessionLocal w) = committed (SessionLocal w)"
    by (simp add: SessionLocal_def)
  ultimately have "consistent (snd (create_loop items (SessionLocal w)))"
    by (rule consistent_create_loop)
  then show ?thesis
    by (cases "create_loop items (SessionLocal w)")
      (auto simp add: create_processed_agent_data_def split: sum.splits)
qed

lemma consistent_delete:
  "consistent w \<Longrightarrow> consistent (snd (delete_processed_agent_data i w))"
  by (simp add: consistent_def delete_committed distinct_map_filter list_all_iff
      delete_processed_agent_data_def Let_def execute_delete_def world_ops split: option.splits)

lemma consistent_update:
  assumes "consistent w"
  shows "consistent (snd (update_processed_agent_data i item w))"
proof -
  have ids: "map c_id (map (\<lambda>r. if c_id r = i then row_of i item else r) rs) = map c_id rs" for rs
    by (induction rs) auto
  have "seq (snd (update_processed_agent_data i item w)) = seq w"
    by (simp add: update_processed_agent_data_def execute_update_def Let_def world_ops
        split: option.splits)
  with assms ids [of "committed w"] show ?thesis
    by (auto simp add: consistent_def update_committed list_all_iff simp del: map_map)
qed

section \<open>The claims\<close>

subsection \<open>C1: fan-out of a created record\<close>

text \<open>
  C1. A create for user 7, with two websockets registered under 7 and one under 8, should
  deliver the stored record to both websockets under 7. The handler passes the
  \<^verbatim>\<open>CursorResult\<close> of the insert to \<^verbatim>\<open>json.dumps\<close>, which raises
  \<^verbatim>\<open>TypeError\<close> before the first \<^verbatim>\<open>send_json\<close>: the request fails, the
  row is committed and no frame is sent to anyone.
\<close>

theorem fanout_create_raises:
  "fst (create_processed_agent_data [reading 7] (start subs78 {})) = Inl TypeError \<and>
   log (snd (create_processed_agent_data [reading 7] (start subs78 {}))) =
     [EvInsert 1, EvCommit [1], EvBroadcast 7, EvRollback]"
  by (simp add: create_single create_item_def execute_insert_def send_data_to_subscribers_def
      json_dumps_def world_ops example_defs Let_def)

subsection \<open>C2: a failing websocket during a broadcast\<close>

text \<open>
  C2, as stated, fails: with the websockets 1 and 2 under user 7 and websocket 1 closed,
  the broadcast raises at websocket 1, websocket 2 receives nothing and websocket 1 stays
  in the registry.
\<close>

theorem broadcast_isolation_counterexample:
  "fst (send_data_to_subscribers 7 (PyStr ''hi'') (start subs78 {1})) = Inl WebSocketDisconnect \<and>
   log (snd (send_data_to_subscribers 7 (PyStr ''hi'') (start subs78 {1}))) = [EvBroadcast 7] \<and>
   subscriptions (snd (send_data_to_subscribers 7 (PyStr ''hi'') (start subs78 {1}))) 7 = Some [1, 2]"
  by (simp add: send_data_to_subscribers_def json_dumps_def send_json_def emit_def example_defs)

text \<open>
  C2, amended. A failure sending to one websocket ends the broadcast: the websockets
  visited before it have received the payload, the failing one and those after it receive
  nothing, the exception reaches the caller and the registry is unchanged.
\<close>

theorem send_data_to_subscribers_aborts:
  assumes "subscriptions w uid = Some (pre @ h # post)"
    and "json_dumps data = Inr s"
    and "h \<in> closed w"
    and "set pre \<inter> closed w = {}"
  shows "send_data_to_subscribers uid data w =
           (Inl WebSocketDisconnect,
            w\<lparr>log := log w @ EvBroadcast uid # map (\<lambda>k. EvSend k s) pre\<rparr>)"
proof -
  have "send_loop (pre @ h # post) data (emit (EvBroadcast uid) w) =
          (Inl WebSocketDisconnect,
           (emit (EvBroadcast uid) w)\<lparr>log := log (emit (EvBroadcast uid) w) @ map (\<lambda>k. EvSend k s) pre\<rparr>)"
    using assms(2-4) by (intro send_loop_aborts) (auto simp add: emit_def)
  with assms(1) show ?thesis by (simp add: send_data_to_subscribers_def emit_def)
qed

theorem send_data_to_subscribers_aborts_witness:
  "send_data_to_subscribers 7 (PyStr ''hi'') (start subs78 {2}) =
     (Inl WebSocketDisconnect,
      (start subs78 {2})\<lparr>log := [EvBroadcast 7, EvSend 1 (Json (PyStr ''hi''))]\<rparr>)"
  using send_data_to_subscribers_aborts [of "start subs78 {2}" 7 "[1]" 2 "[]" "PyStr ''hi''" "Json (PyStr ''hi'')"]
  by (simp add: json_dumps_def example_defs)

subsection \<open>C3: a failing broadcast and the caller of create\<close>

text \<open>
  C3, as stated, fails: a create for user 8, who has a subscriber, commits the row, fails
  in the broadcast and returns the error to the caller.
\<close>

theorem create_broadcast_counterexample:
  "fst (create_processed_agent_data [reading 8] (start subs78 {})) = Inl TypeError \<and>
   log (snd (create_processed_agent_data [reading 8] (start subs78 {}))) =
     [EvInsert 1, EvCommit [1], EvBroadcast 8, EvRollback]"
  by (simp add: create_single create_item_def execute_insert_def send_data_to_subscribers_def
      json_dumps_def world_ops example_defs Let_def)

text \<open>
  C3, amended. When the broadcast of a create raises, the handler rolls back, which no
  longer touches the committed row, and raises the same exception to its caller; the row
  remains stored.
\<close>

theorem create_broadcast_failure_surfaces:
  assumes "execute_insert item (SessionLocal w) = (Inr result, w1)"
    and "send_data_to_subscribers (user_id (agent_data item)) (PyCursorResult result) (commit w1)
           = (Inl e, w2)"
  shows "fst (create_processed_agent_data [item] w) = Inl e \<and>
         committed (snd (create_processed_agent_data [item] w)) =
           committed w @ [row_of (seq w) item]"
proof -
  from assms have res: "create_processed_agent_data [item] w = (Inl e, rollback w2)"
    by (simp add: create_single create_item_def)
  from assms(1) have w1: "session w1 = committed w @ [row_of (seq w) item]"
    by (auto simp add: execute_insert_def Let_def world_ops split: if_splits)
  from assms(2) send_data_fields [of "user_id (agent_data item)" "PyCursorResult result" "commit w1"]
  have "committed w2 = committed (commit w1)" by simp
  with w1 have "committed (rollback w2) = committed w @ [row_of (seq w) item]"
    by (simp add: world_ops)
  with res show ?thesis by simp
qed

theorem create_broadcast_failure_surfaces_witness:
  "fst (create_processed_agent_data [reading 7] (start subs78 {1})) = Inl TypeError \<and>
   committed (snd (create_processed_agent_data [reading 7] (start subs78 {1}))) =
     [row_of 1 (reading 7)]"
  using create_broadcast_failure_surfaces [of "reading 7" "start subs78 {1}"
      "\<lparr>inserted_primary_key = Some 1, rowcount = 1\<rparr>"
      "snd (execute_insert (reading 7) (SessionLocal (start subs78 {1})))"
      TypeError
      "snd (send_data_to_subscribers 7 (PyCursorResult \<lparr>inserted_primary_key = Some 1, rowcount = 1\<rparr>)
             (commit (snd (execute_insert (reading 7) (SessionLocal (start subs78 {1}))))))"]
  by (simp add: execute_insert_def send_data_to_subscribers_def json_dumps_def world_ops
      example_defs Let_def)

subsection \<open>C4: what create returns\<close>




subsection \<open>C5: validation before persistence\<close>

text \<open>
  C5, as stated, fails: a payload whose \<^verbatim>\<open>road_state\<close> is the empty string,
  with a valid \<^verbatim>\<open>agent_data\<close>, passes the validation, and the row is written.
\<close>

theorem empty_road_state_counterexample:
  "validate_body validate_AgentData_example (JArr [payload (JStr '''')]) =
     Inr [\<lparr>road_state = '''', agent_data = agent 1\<rparr>] \<and>
   fst (post_processed_agent_data validate_AgentData_example (JArr [payload (JStr '''')])
         (start Map.empty {})) = Inr RNone \<and>
   committed (snd (post_processed_agent_data validate_AgentData_example
         (JArr [payload (JStr '''')]) (start Map.empty {}))) =
     [row_of 1 \<lparr>road_state = '''', agent_data = agent 1\<rparr>]"
  by (simp add: post_processed_agent_data_def validate_body_def payload_def
      validate_AgentData_example_def create_single create_item_def execute_insert_def
      send_data_to_subscribers_def world_ops start_def Let_def)

text \<open>
  C5, amended. A body is refused exactly when one of its payloads is not an object, has no
  \<^verbatim>\<open>road_state\<close> or one that is not a string, or has no \<^verbatim>\<open>agent_data\<close>
  or one that the validation of \<^verbatim>\<open>AgentData\<close> refuses; a refused body reaches no
  handler: the error is returned and the world is unchanged, so no row is written and
  nothing is sent.
\<close>

theorem validation_rejects_before_persistence:
  "(isl (validate_body va (JArr js)) \<longleftrightarrow> (\<exists>j \<in> set js. violates va j)) \<and>
   (\<forall>e. validate_body va body = Inl e \<longrightarrow>
      post_processed_agent_data va body w = (Inl e, w))"
  by (simp add: validate_body_def validate_items_isl post_processed_agent_data_def)

theorem validation_rejects_before_persistence_witness:
  "violates validate_AgentData_example (payload (JNum 5)) \<and>
   post_processed_agent_data validate_AgentData_example (JArr [payload (JNum 5)])
     (start subs78 {}) = (Inl (ValidationError [''road_state'']), start subs78 {})"
  using validation_rejects_before_persistence [of validate_AgentData_example
      "[payload (JNum 5)]" "JArr [payload (JNum 5)]" "start subs78 {}"]
  by (simp add: validate_body_def payload_def violates_def)

subsection \<open>C6: round trip of create and read\<close>



subsection \<open>C7: the not-found boundary\<close>



subsection \<open>C8: delete removes one row\<close>



subsection \<open>C9: commit before broadcast\<close>

text \<open>
  C9. Among the events of a create of one record, every call of
  \<^verbatim>\<open>send_data_to_subscribers\<close> and every frame sent comes after a commit that left
  the row of the record durable; and when the insert is accepted, the events begin with the
  insert, the commit of the table with the new id, and the broadcast, in this order.
\<close>

theorem commit_before_broadcast:
  "commit_precedes (seq w) False
     (drop (length (log w)) (log (snd (create_processed_agent_data [item] w)))) \<and>
   (seq w \<notin> set (map c_id (committed w)) \<longrightarrow>
      take 3 (drop (length (log w)) (log (snd (create_processed_agent_data [item] w)))) =
        [EvInsert (seq w), EvCommit (map c_id (committed w) @ [seq w]),
         EvBroadcast (user_id (agent_data item))])"
  using create_item_cases [of "SessionLocal w" item]
  by (auto simp add: create_single stored_def world_ops)

theorem commit_before_broadcast_witness:
  "drop (length (log three_rows)) (log (snd (create_processed_agent_data [reading 7] three_rows))) =
     [EvInsert 4, EvCommit [1, 2, 3, 4], EvBroadcast 7, EvRollback] \<and>
   commit_precedes 4 False [EvInsert 4, EvCommit [1, 2, 3, 4], EvBroadcast 7, EvRollback]"
  using commit_before_broadcast [of three_rows "reading 7"]
  by (simp add: three_rows_def create_processed_agent_data_def create_item_def
      execute_insert_def send_data_to_subscribers_def json_dumps_def world_ops example_defs Let_def)

subsection \<open>C10: a batch that fails at one item\<close>

text \<open>
  C10. When the items before item \<open>k\<close> of a batch succeed and item \<open>k\<close> fails,
  the create of the whole batch fails with the error of item \<open>k\<close> and ends in the world
  that item \<open>k\<close> left, whatever the items after it are: none of them is attempted. The
  items before \<open>k\<close> have been inserted and committed one after the other, each before
  the insert of the next, in the order of the list and under consecutive ids, and their rows
  are still in the table at the end.
\<close>

theorem create_batch_partial_success:
  assumes "create_processed_agent_data pre w = (Inr RNone, w1)"
    and "create_processed_agent_data [item] w1 = (Inl e, w2)"
  shows "create_processed_agent_data (pre @ item # post) w = (Inl e, w2) \<and>
         committed w1 = committed w @ rows_from (seq w) pre \<and>
         log w1 = log w @ events_from (map c_id (committed w)) (seq w) pre \<and>
         take (length (committed w1)) (committed w2) = committed w1"
proof -
  from assms(1) have loop: "create_loop pre (SessionLocal w) = (Inr (), w1)"
    by (auto simp add: create_processed_agent_data_def split: prod.splits sum.splits)
  have "session (SessionLocal w) = committed (SessionLocal w)"
    by (simp add: SessionLocal_def)
  from create_loop_success [OF loop this]
  have rows: "committed w1 = committed w @ rows_from (seq w) pre"
    and same: "session w1 = committed w1"
    and evs: "log w1 = log w @ events_from (map c_id (committed w)) (seq w) pre"
    by (simp_all add: SessionLocal_def)
  from same have w1: "SessionLocal w1 = w1"
    by (simp add: SessionLocal_def)
  from assms(2) w1 have fail: "create_item item w1 = (Inl e, w2)"
    by (auto simp add: create_single split: prod.splits sum.splits)
  have "create_loop (pre @ item # post) (SessionLocal w) = (Inl e, w2)"
    by (simp add: create_loop_append loop fail)
  then have res: "create_processed_agent_data (pre @ item # post) w = (Inl e, w2)"
    by (simp add: create_processed_agent_data_def)
  from create_item_keeps [OF same, of item] fail
  have "take (length (committed w1)) (committed w2) = committed w1"
    by simp
  with res rows evs show ?thesis by simp
qed

theorem create_batch_partial_success_witness:
  "fst (create_processed_agent_data [reading 41, reading 42, reading 7, reading 43]
         (start subs78 {})) = Inl TypeError \<and>
   committed (snd (create_processed_agent_data [reading 41, reading 42, reading 7, reading 43]
         (start subs78 {}))) =
     [row_of 1 (reading 41), row_of 2 (reading 42), row_of 3 (reading 7)] \<and>
   log (snd (create_processed_agent_data [reading 41, reading 42] (start subs78 {}))) =
     [EvInsert 1, EvCommit [1], EvBroadcast 41, EvInsert 2, EvCommit [1, 2], EvBroadcast 42]"
  using create_batch_partial_success [of "[reading 41, reading 42]" "start subs78 {}"
      "snd (create_processed_agent_data [reading 41, reading 42] (start subs78 {}))"
      "reading 7" TypeError
      "snd (create_processed_agent_data [reading 7]
             (snd (create_processed_agent_data [reading 41, reading 42] (start subs78 {}))))"
      "[reading 43]"]
  by (simp add: create_processed_agent_data_def create_item_def
      execute_insert_def send_data_to_subscribers_def json_dumps_def world_ops example_defs Let_def)

end
